theory Spec2Isabelle
  imports Main "HOL-Library.Word"
begin

section \<open>Data model\<close>

text \<open>
  Times are JavaScript timestamps: integer milliseconds since the epoch, as returned by
  \<^verbatim>\<open>Date.now()\<close> and \<^verbatim>\<open>Date.getTime()\<close>. A JavaScript number that may be
  \<^verbatim>\<open>NaN\<close> (the result of \<^verbatim>\<open>parseInt\<close> on a missing environment variable, and
  of any arithmetic on it) is a \<open>jsnum\<close>. A stored date is never \<^verbatim>\<open>NaN\<close>.
\<close>

datatype jsnum = Num int | NaN

fun jsnum_add :: "jsnum \<Rightarrow> jsnum \<Rightarrow> jsnum" where
  "jsnum_add (Num a) (Num b) = Num (a + b)"
| "jsnum_add _ _ = NaN"

fun jsnum_mul :: "jsnum \<Rightarrow> jsnum \<Rightarrow> jsnum" where
  "jsnum_mul (Num a) (Num b) = Num (a * b)"
| "jsnum_mul _ _ = NaN"

text \<open>
  The fields of \<^verbatim>\<open>userSchema\<close> (src/models/User.js) that the authentication code reads or
  writes. An optional field that is \<^verbatim>\<open>undefined\<close> is \<open>None\<close>. \<open>loginAttempts\<close> has the schema
  default 0, so a document whose field was removed by \<^verbatim>\<open>$unset\<close> reads as 0.
  \<open>password\<close> holds the stored bcrypt digest.
\<close>

record user =
  uid :: nat
  email :: string
  password :: string
  role :: string
  isActive :: bool
  isEmailVerified :: bool
  emailVerificationToken :: "string option"
  emailVerificationExpire :: "int option"
  passwordResetToken :: "string option"
  passwordResetExpire :: "int option"
  passwordChangedAt :: "int option"
  loginAttempts :: int
  lockUntil :: "int option"
  lastLoginAt :: "int option"

text \<open>The collection of user documents, in storage order.\<close>

type_synonym db = "user list"

definition findOne :: "(user \<Rightarrow> bool) \<Rightarrow> db \<Rightarrow> user option" where
  "findOne P users = find P users"

definition findById :: "nat \<Rightarrow> db \<Rightarrow> user option" where
  "findById i users = findOne (\<lambda>d. uid d = i) users"

text \<open>
  \<^verbatim>\<open>doc.updateOne(...)\<close> changes the stored document whose \<^verbatim>\<open>_id\<close> is the document's;
  \<^verbatim>\<open>doc.save()\<close> writes the modified paths of a document that the same handler has loaded,
  which leaves the stored document equal to the one in memory.
\<close>

definition updateById :: "nat \<Rightarrow> (user \<Rightarrow> user) \<Rightarrow> db \<Rightarrow> db" where
  "updateById i f users = map (\<lambda>d. if uid d = i then f d else d) users"

definition save :: "user \<Rightarrow> db \<Rightarrow> db" where
  "save u users = updateById (uid u) (\<lambda>d. u) users"

text \<open>
  The claims of a session token, and the token: the claims with their signature.
  \<open>tok_iat\<close> and \<open>tok_exp\<close> are in seconds, as \<^verbatim>\<open>changedPasswordAfter\<close> expects of
  \<^verbatim>\<open>decoded.iat\<close>.
\<close>

record jwt_payload =
  tok_id :: nat
  tok_email :: string
  tok_role :: string
  tok_iat :: int
  tok_exp :: int

record jwt =
  payload :: jwt_payload
  signature :: string

text \<open>
  What the code takes from its libraries and from \<^verbatim>\<open>process.env\<close>: the hash functions of
  \<^verbatim>\<open>crypto\<close> and \<^verbatim>\<open>bcryptjs\<close>, the signature function behind \<^verbatim>\<open>jsonwebtoken\<close>, and the
  configuration variables. \<open>PASSWORD_RESET_EXPIRE\<close> and \<open>BCRYPT_SALT_ROUNDS\<close> are the variables
  after \<^verbatim>\<open>parseInt\<close> (\<open>None\<close>: the variable is unset or not a number, so that
  \<^verbatim>\<open>parseInt\<close> gives \<^verbatim>\<open>NaN\<close>); \<open>JWT_EXPIRE\<close> is the token lifetime in seconds
  (\<open>None\<close>: unset). \<open>bcrypt_compare\<close> returns \<open>None\<close> where the library rejects its promise;
  \<open>bcrypt_hash\<close>, \<open>sha256\<close> and \<open>hmac\<close> are taken to return.
\<close>

record env =
  sha256 :: "string \<Rightarrow> string"
  bcrypt_hash :: "string \<Rightarrow> nat \<Rightarrow> string"
  bcrypt_compare :: "string \<Rightarrow> string \<Rightarrow> bool option"
  hmac :: "string \<Rightarrow> jwt_payload \<Rightarrow> string"
  JWT_SECRET :: string
  JWT_EXPIRE :: "int option"
  PASSWORD_RESET_EXPIRE :: "int option"
  BCRYPT_SALT_ROUNDS :: "nat option"

text \<open>The body of an HTTP response, as far as the claims read it.\<close>

record response =
  status :: nat
  message :: string
  token :: "jwt option"

section \<open>Lockout policy (src/models/User.js)\<close>

text \<open>\<^verbatim>\<open>isLocked\<close>: \<^verbatim>\<open>!!(this.lockUntil && this.lockUntil > Date.now())\<close>.\<close>

definition isLocked :: "int \<Rightarrow> user \<Rightarrow> bool" where
  "isLocked now u = (case lockUntil u of None \<Rightarrow> False | Some t \<Rightarrow> t > now)"

text \<open>
  \<^verbatim>\<open>incLoginAttempts\<close>. The three reads of the clock in the method are synchronous and are
  taken at the same instant \<open>now\<close>.
\<close>

definition incLoginAttempts :: "int \<Rightarrow> user \<Rightarrow> user" where
  "incLoginAttempts now u =
     (if (case lockUntil u of None \<Rightarrow> False | Some t \<Rightarrow> t < now)
      then u\<lparr>lockUntil := None, loginAttempts := 1\<rparr>
      else if loginAttempts u + 1 \<ge> 5 \<and> \<not> isLocked now u
        then u\<lparr>loginAttempts := loginAttempts u + 1,
               lockUntil := Some (now + 2 * 60 * 60 * 1000)\<rparr>
        else u\<lparr>loginAttempts := loginAttempts u + 1\<rparr>)"

text \<open>\<^verbatim>\<open>resetLoginAttempts\<close>: \<^verbatim>\<open>$unset\<close> of both fields.\<close>

definition resetLoginAttempts :: "user \<Rightarrow> user" where
  "resetLoginAttempts u = u\<lparr>loginAttempts := 0, lockUntil := None\<rparr>"

section \<open>Passwords and session tokens (src/models/User.js)\<close>

text \<open>\<^verbatim>\<open>comparePassword\<close> hands the candidate and the stored digest to \<^verbatim>\<open>bcrypt.compare\<close>.\<close>

definition comparePassword :: "env \<Rightarrow> user \<Rightarrow> string \<Rightarrow> bool option" where
  "comparePassword e u candidatePassword = bcrypt_compare e candidatePassword (password u)"

text \<open>
  The \<^verbatim>\<open>pre('save')\<close> hook. \<open>modified\<close> is \<^verbatim>\<open>this.isModified('password')\<close>, \<open>isNew\<close> is
  \<^verbatim>\<open>this.isNew\<close>. \<^verbatim>\<open>parseInt(process.env.BCRYPT_SALT_ROUNDS) || 12\<close> is 12 for
  \<^verbatim>\<open>NaN\<close> and for 0.
\<close>

definition saltRounds :: "env \<Rightarrow> nat" where
  "saltRounds e = (case BCRYPT_SALT_ROUNDS e of None \<Rightarrow> 12 | Some n \<Rightarrow> if n = 0 then 12 else n)"

definition pre_save :: "env \<Rightarrow> int \<Rightarrow> bool \<Rightarrow> bool \<Rightarrow> user \<Rightarrow> user" where
  "pre_save e now modified isNew u =
     (if \<not> modified then u
      else let u1 = u\<lparr>password := bcrypt_hash e (password u) (saltRounds e)\<rparr>
           in if \<not> isNew then u1\<lparr>passwordChangedAt := Some (now - 1000)\<rparr> else u1)"

text \<open>
  Modelled from the spec: \<^verbatim>\<open>jwt.sign\<close> and \<^verbatim>\<open>jwt.verify\<close> of the jsonwebtoken library,
  which is not part of the repository. Section 4.2: the token carries \<open>issuedAt = now\<close> and
  \<open>expiresAt = now + TTL\<close> (default 7 days); verification rejects a bad signature and
  \<open>expiresAt \<le> now\<close>, and tells the two apart.
\<close>

datatype jwt_error = JsonWebTokenError | TokenExpiredError

definition jwt_sign :: "env \<Rightarrow> int \<Rightarrow> nat \<Rightarrow> string \<Rightarrow> string \<Rightarrow> int \<Rightarrow> jwt" where
  "jwt_sign e now i em r expiresIn =
     (let p = \<lparr>tok_id = i, tok_email = em, tok_role = r,
                tok_iat = now div 1000, tok_exp = now div 1000 + expiresIn\<rparr>
      in \<lparr>payload = p, signature = hmac e (JWT_SECRET e) p\<rparr>)"

definition jwt_verify :: "env \<Rightarrow> int \<Rightarrow> jwt \<Rightarrow> jwt_error + jwt_payload" where
  "jwt_verify e now t =
     (if signature t \<noteq> hmac e (JWT_SECRET e) (payload t) then Inl JsonWebTokenError
      else if tok_exp (payload t) \<le> now div 1000 then Inl TokenExpiredError
      else Inr (payload t))"

text \<open>\<^verbatim>\<open>generateAuthToken\<close>: \<^verbatim>\<open>expiresIn: process.env.JWT_EXPIRE || '7d'\<close>.\<close>

definition expiresIn :: "env \<Rightarrow> int" where
  "expiresIn e = (case JWT_EXPIRE e of None \<Rightarrow> 7 * 24 * 60 * 60 | Some s \<Rightarrow> s)"

definition generateAuthToken :: "env \<Rightarrow> int \<Rightarrow> user \<Rightarrow> jwt" where
  "generateAuthToken e now u = jwt_sign e now (uid u) (email u) (role u) (expiresIn e)"

text \<open>
  \<^verbatim>\<open>changedPasswordAfter\<close>: \<^verbatim>\<open>parseInt(this.passwordChangedAt.getTime() / 1000, 10)\<close> drops
  the fraction of the quotient, towards zero.
\<close>

definition changedTimestamp :: "int \<Rightarrow> int" where
  "changedTimestamp ms = (if 0 \<le> ms then ms div 1000 else - ((- ms) div 1000))"

definition changedPasswordAfter :: "user \<Rightarrow> int \<Rightarrow> bool" where
  "changedPasswordAfter u JWTTimestamp =
     (case passwordChangedAt u of
        Some t \<Rightarrow> JWTTimestamp < changedTimestamp t
      | None \<Rightarrow> False)"

section \<open>Single-use tokens (src/models/User.js)\<close>

text \<open>
  \<^verbatim>\<open>crypto.randomBytes(n)\<close> takes \<open>n\<close> bytes from the system's random source \<open>rnd\<close>;
  \<^verbatim>\<open>toString('hex')\<close> writes each byte as two lower-case hexadecimal digits.
\<close>

definition randomBytes :: "nat \<Rightarrow> (nat \<Rightarrow> 8 word) \<Rightarrow> 8 word list" where
  "randomBytes n rnd = map rnd [0..<n]"

definition hexdigit :: "nat \<Rightarrow> char" where
  "hexdigit n = ''0123456789abcdef'' ! (n mod 16)"

definition toHex :: "8 word list \<Rightarrow> string" where
  "toHex bs = concat (map (\<lambda>b. [hexdigit (unat b div 16), hexdigit (unat b mod 16)]) bs)"

text \<open>\<^verbatim>\<open>parseInt(process.env.PASSWORD_RESET_EXPIRE)\<close>.\<close>

definition parseInt_env :: "int option \<Rightarrow> jsnum" where
  "parseInt_env v = (case v of None \<Rightarrow> NaN | Some n \<Rightarrow> Num n)"

text \<open>
  The assignment of a number to a path of type \<^verbatim>\<open>Date\<close>: the number becomes the date.
  \<^verbatim>\<open>NaN\<close> is no date: the cast refuses it, the path keeps the value it had, and a later
  \<^verbatim>\<open>save({ validateBeforeSave: false })\<close> does not write it.
\<close>

definition assignDate :: "jsnum \<Rightarrow> int option \<Rightarrow> int option" where
  "assignDate v old = (case v of Num t \<Rightarrow> Some t | NaN \<Rightarrow> old)"

definition createPasswordResetToken :: "env \<Rightarrow> int \<Rightarrow> (nat \<Rightarrow> 8 word) \<Rightarrow> user \<Rightarrow> string \<times> user" where
  "createPasswordResetToken e now rnd u =
     (let resetToken = toHex (randomBytes 32 rnd)
      in (resetToken,
          u\<lparr>passwordResetToken := Some (sha256 e resetToken),
            passwordResetExpire :=
              assignDate
                (jsnum_add (Num now)
                  (jsnum_mul (jsnum_mul (parseInt_env (PASSWORD_RESET_EXPIRE e)) (Num 60)) (Num 1000)))
                (passwordResetExpire u)\<rparr>))"

definition createEmailVerificationToken :: "env \<Rightarrow> int \<Rightarrow> (nat \<Rightarrow> 8 word) \<Rightarrow> user \<Rightarrow> string \<times> user" where
  "createEmailVerificationToken e now rnd u =
     (let verificationToken = toHex (randomBytes 32 rnd)
      in (verificationToken,
          u\<lparr>emailVerificationToken := Some (sha256 e verificationToken),
            emailVerificationExpire := Some (now + 24 * 60 * 60 * 1000)\<rparr>))"

section \<open>Login (src/models/User.js, routes/auth.js)\<close>

text \<open>
  \<^verbatim>\<open>getAuthenticated\<close> returns \<^verbatim>\<open>{ user, reason }\<close> with exactly one of the two
  \<^verbatim>\<open>null\<close>. The result is \<open>None\<close> where \<^verbatim>\<open>bcrypt.compare\<close> rejects: nothing has been
  written by then. \<open>t_check\<close> is the clock at the lock check, \<open>t_act\<close> the clock after the
  password comparison.
\<close>

datatype auth_result = Authenticated user | Rejected string

definition getAuthenticated ::
  "env \<Rightarrow> db \<Rightarrow> string \<Rightarrow> string \<Rightarrow> int \<Rightarrow> int \<Rightarrow> (auth_result \<times> db) option" where
  "getAuthenticated e users em pw t_check t_act =
     (case findOne (\<lambda>d. email d = em \<and> isActive d) users of
        None \<Rightarrow> Some (Rejected ''User not found'', users)
      | Some u \<Rightarrow>
          if isLocked t_check u
          then Some (Rejected ''Account temporarily locked due to too many failed login attempts'', users)
          else (case comparePassword e u pw of
                  None \<Rightarrow> None
                | Some True \<Rightarrow>
                    (let users1 = (if loginAttempts u > 0
                                   then updateById (uid u) resetLoginAttempts users else users);
                         users2 = updateById (uid u) (\<lambda>d. d\<lparr>lastLoginAt := Some t_act\<rparr>) users1
                     in Some (Authenticated (u\<lparr>lastLoginAt := Some t_act\<rparr>), users2))
                | Some False \<Rightarrow>
                    Some (Rejected ''Invalid credentials'',
                          updateById (uid u) (incLoginAttempts t_act) users)))"

definition createSendToken :: "env \<Rightarrow> int \<Rightarrow> user \<Rightarrow> nat \<Rightarrow> string \<Rightarrow> response" where
  "createSendToken e now u statusCode msg =
     \<lparr>status = statusCode, message = msg, token = Some (generateAuthToken e now u)\<rparr>"

definition fail :: "nat \<Rightarrow> string \<Rightarrow> response" where
  "fail statusCode msg = \<lparr>status = statusCode, message = msg, token = None\<rparr>"

text \<open>
  The handlers of routes/auth.js, entered once the rate limiter and the validators of the
  route have let the request through.
\<close>

definition login ::
  "env \<Rightarrow> db \<Rightarrow> string \<Rightarrow> string \<Rightarrow> int \<Rightarrow> int \<Rightarrow> int \<Rightarrow> response \<times> db" where
  "login e users em pw t_check t_act t_sign =
     (case getAuthenticated e users em pw t_check t_act of
        None \<Rightarrow> (fail 500 ''Something went wrong during login'', users)
      | Some (Rejected reason, users') \<Rightarrow> (fail 401 reason, users')
      | Some (Authenticated u, users') \<Rightarrow>
          (createSendToken e t_sign u 200 ''Logged in successfully'', users'))"

section \<open>Password reset and email verification (routes/auth.js)\<close>

text \<open>\<^verbatim>\<open>POST /forgot-password\<close>. \<open>now\<close> is the clock in \<^verbatim>\<open>createPasswordResetToken\<close>.\<close>

definition forgotPassword ::
  "env \<Rightarrow> db \<Rightarrow> string \<Rightarrow> int \<Rightarrow> (nat \<Rightarrow> 8 word) \<Rightarrow> response \<times> db" where
  "forgotPassword e users em now rnd =
     (case findOne (\<lambda>d. email d = em \<and> isActive d) users of
        None \<Rightarrow> (fail 404 ''There is no user with that email address'', users)
      | Some u \<Rightarrow>
          (let (resetToken, u') = createPasswordResetToken e now rnd u
           in (fail 200 ''Password reset token sent to email!'', save u' users)))"

text \<open>The query operator \<^verbatim>\<open>{ $gt: Date.now() }\<close> on a date field: an absent date matches nothing.\<close>

fun gt_date :: "int option \<Rightarrow> int \<Rightarrow> bool" where
  "gt_date (Some t) now = (t > now)"
| "gt_date None now = False"

text \<open>
  \<^verbatim>\<open>PATCH /reset-password/:token\<close>. \<open>t_query\<close> is the clock in the query, \<open>t_save\<close> the clock
  in the \<^verbatim>\<open>pre('save')\<close> hook, \<open>t_sign\<close> the clock when the session token is signed. The
  query loads the document without its password (\<^verbatim>\<open>select: false\<close>), so the assignment of
  the new password always marks the path as modified.
\<close>

definition resetPassword ::
  "env \<Rightarrow> db \<Rightarrow> string \<Rightarrow> string \<Rightarrow> int \<Rightarrow> int \<Rightarrow> int \<Rightarrow> response \<times> db" where
  "resetPassword e users tokenParam newPassword t_query t_save t_sign =
     (let hashedToken = sha256 e tokenParam
      in case findOne (\<lambda>d. passwordResetToken d = Some hashedToken
                          \<and> gt_date (passwordResetExpire d) t_query
                          \<and> isActive d) users of
           None \<Rightarrow> (fail 400 ''Token is invalid or has expired'', users)
         | Some u \<Rightarrow>
             (let u' = pre_save e t_save True False
                         (u\<lparr>password := newPassword,
                            passwordResetToken := None,
                            passwordResetExpire := None\<rparr>)
              in (createSendToken e t_sign u' 200 ''Password reset successfully'', save u' users)))"

text \<open>\<^verbatim>\<open>POST /verify-email/:token\<close>.\<close>

definition verifyEmail :: "env \<Rightarrow> db \<Rightarrow> string \<Rightarrow> int \<Rightarrow> response \<times> db" where
  "verifyEmail e users tokenParam t_query =
     (let hashedToken = sha256 e tokenParam
      in case findOne (\<lambda>d. emailVerificationToken d = Some hashedToken
                          \<and> gt_date (emailVerificationExpire d) t_query
                          \<and> isActive d) users of
           None \<Rightarrow> (fail 400 ''Token is invalid or has expired'', users)
         | Some u \<Rightarrow>
             (fail 200 ''Email verified successfully!'',
              save (u\<lparr>isEmailVerified := True,
                      emailVerificationToken := None,
                      emailVerificationExpire := None\<rparr>) users))"

text \<open>\<^verbatim>\<open>POST /resend-verification\<close>, for the user \<^verbatim>\<open>req.user\<close> that \<^verbatim>\<open>protect\<close> has loaded.\<close>

definition resendVerification ::
  "env \<Rightarrow> db \<Rightarrow> user \<Rightarrow> int \<Rightarrow> (nat \<Rightarrow> 8 word) \<Rightarrow> response \<times> db" where
  "resendVerification e users reqUser now rnd =
     (if isEmailVerified reqUser then (fail 400 ''Email is already verified'', users)
      else let (verifyToken, u') = createEmailVerificationToken e now rnd reqUser
           in (fail 200 ''Verification email sent!'', save u' users))"

text \<open>
  \<^verbatim>\<open>PATCH /update-password\<close>, for the user \<^verbatim>\<open>req.user\<close> that \<^verbatim>\<open>protect\<close> has loaded. A
  missing document or a rejected comparison ends in the handler's \<^verbatim>\<open>catch\<close>. The document
  is loaded with its password (\<^verbatim>\<open>select('+password')\<close>), and an assignment marks a path as
  modified only where the new value differs from the loaded one.
\<close>

definition updatePassword ::
  "env \<Rightarrow> db \<Rightarrow> user \<Rightarrow> string \<Rightarrow> string \<Rightarrow> int \<Rightarrow> int \<Rightarrow> response \<times> db" where
  "updatePassword e users reqUser currentPassword newPassword t_save t_sign =
     (case findById (uid reqUser) users of
        None \<Rightarrow> (fail 500 ''Something went wrong during password update'', users)
      | Some u \<Rightarrow>
          (case comparePassword e u currentPassword of
             None \<Rightarrow> (fail 500 ''Something went wrong during password update'', users)
           | Some False \<Rightarrow> (fail 401 ''Your current password is incorrect'', users)
           | Some True \<Rightarrow>
               (let u' = pre_save e t_save (newPassword \<noteq> password u) False
                           (u\<lparr>password := newPassword\<rparr>)
                in (createSendToken e t_sign u' 200 ''Password updated successfully'',
                    save u' users))))"

section \<open>The authentication gate (middleware/auth.js)\<close>

text \<open>
  \<^verbatim>\<open>protect\<close>, for the token taken from the \<^verbatim>\<open>Authorization\<close> header or the cookie
  (\<open>None\<close>: the request carries none). It answers the request itself (\<open>Inl\<close>) or hands the
  loaded user to the next handler (\<open>Inr\<close>).
\<close>

definition protect :: "env \<Rightarrow> db \<Rightarrow> int \<Rightarrow> jwt option \<Rightarrow> response + user" where
  "protect e users now tok =
     (case tok of
        None \<Rightarrow> Inl (fail 401 ''You are not logged in! Please log in to get access.'')
      | Some t \<Rightarrow>
          (case jwt_verify e now t of
             Inl JsonWebTokenError \<Rightarrow> Inl (fail 401 ''Invalid token. Please log in again!'')
           | Inl TokenExpiredError \<Rightarrow> Inl (fail 401 ''Your token has expired! Please log in again.'')
           | Inr decoded \<Rightarrow>
               (case findById (tok_id decoded) users of
                  None \<Rightarrow> Inl (fail 401 ''The user belonging to this token does no longer exist.'')
                | Some currentUser \<Rightarrow>
                    if \<not> isActive currentUser
                    then Inl (fail 401 ''Your account has been deactivated. Please contact support.'')
                    else if changedPasswordAfter currentUser (tok_iat decoded)
                    then Inl (fail 401 ''User recently changed password! Please log in again.'')
                    else Inr currentUser)))"

text \<open>A route \<^verbatim>\<open>router.METHOD(path, protect, handler)\<close>: the handler runs only with a user.\<close>

definition protected ::
  "env \<Rightarrow> int \<Rightarrow> (user \<Rightarrow> db \<Rightarrow> response \<times> db) \<Rightarrow> jwt option \<Rightarrow> db \<Rightarrow> response \<times> db" where
  "protected e now handler tok users =
     (case protect e users now tok of
        Inl r \<Rightarrow> (r, users)
      | Inr u \<Rightarrow> handler u users)"

section \<open>The invariant of the lockout state\<close>

text \<open>
  \<^verbatim>\<open>lockUntil\<close> is only ever set by \<^verbatim>\<open>incLoginAttempts\<close>, together with a count of at
  least 5, and only ever removed together with the count or with a count of 1.
\<close>

definition lockout_inv :: "user \<Rightarrow> bool" where
  "lockout_inv u = (case lockUntil u of None \<Rightarrow> True | Some t \<Rightarrow> 5 \<le> loginAttempts u)"

section \<open>Sample data\<close>

definition env0 :: env where
  "env0 = \<lparr>sha256 = (\<lambda>s. CHR ''#'' # s),
           bcrypt_hash = (\<lambda>p r. CHR ''$'' # p),
           bcrypt_compare = (\<lambda>p d. Some (d = CHR ''$'' # p)),
           hmac = (\<lambda>k p. k @ tok_email p),
           JWT_SECRET = ''secret'',
           JWT_EXPIRE = None,
           PASSWORD_RESET_EXPIRE = Some 10,
           BCRYPT_SALT_ROUNDS = None\<rparr>"

definition alice :: user where
  "alice = \<lparr>uid = 1, email = ''alice@example.com'', password = ''$Abcdef1!'', role = ''user'',
            isActive = True, isEmailVerified = False,
            emailVerificationToken = None, emailVerificationExpire = None,
            passwordResetToken = None, passwordResetExpire = None,
            passwordChangedAt = None, loginAttempts = 0, lockUntil = None,
            lastLoginAt = None\<rparr>"

definition rnd0 :: "nat \<Rightarrow> 8 word" where
  "rnd0 i = of_nat i"

text \<open>An account with an outstanding reset token \<open>tok\<close>.\<close>

definition alice_reset :: user where
  "alice_reset = alice\<lparr>passwordResetToken := Some ''#tok'',
                        passwordResetExpire := Some 1700000600000\<rparr>"


text \<open>An account one wrong password away from the lock.\<close>

definition alice4 :: user where
  "alice4 = alice\<lparr>loginAttempts := 4\<rparr>"

text \<open>
  An environment in which \<^verbatim>\<open>bcrypt.compare\<close> behaves as bcryptjs does on digests it cannot
  read: a digest whose length is not 60 gives false, and a digest of length 60 that does not
  begin with \<open>$2\<close> makes the promise reject ("Invalid salt version"). The account
  \<open>corrupt\<close> has such a stored digest.
\<close>

definition env_reject :: env where
  "env_reject = env0\<lparr>bcrypt_compare :=
     (\<lambda>p d. if length d \<noteq> 60 then Some False
            else if take 2 d \<noteq> ''$2'' then None
            else Some (d = CHR ''$'' # p))\<rparr>"

definition corrupt :: user where
  "corrupt = alice\<lparr>password := replicate 60 CHR ''x''\<rparr>"

text \<open>An account after five failed logins at time 2800000: locked until 10000000.\<close>

definition locked5 :: user where
  "locked5 = alice\<lparr>loginAttempts := 5, lockUntil := Some 10000000\<rparr>"

section \<open>Facts about the store\<close>


lemma findOne_Some_set: "findOne P users = Some u \<Longrightarrow> u \<in> set users \<and> P u"
  by (auto simp: findOne_def find_Some_iff)

lemma set_updateById:
  "set (updateById i f users) = (\<lambda>d. if uid d = i then f d else d) ` set users"
  by (simp add: updateById_def)

section \<open>Lockout policy: the failed-attempt transition\<close>

text \<open>
  \<^verbatim>\<open>incLoginAttempts\<close> on every account state and every clock value, the guard
  \<^verbatim>\<open>!this.isLocked\<close> included.
\<close>

lemma incLoginAttempts_cases:
  "incLoginAttempts now u =
     (if (\<exists>t. lockUntil u = Some t \<and> t < now)
      then u\<lparr>lockUntil := None, loginAttempts := 1\<rparr>
      else u\<lparr>loginAttempts := loginAttempts u + 1,
             lockUntil := (if 5 \<le> loginAttempts u + 1 \<and> \<not> (\<exists>t. lockUntil u = Some t \<and> now < t)
                           then Some (now + 7200000) else lockUntil u)\<rparr>)"
  by (auto simp: incLoginAttempts_def isLocked_def split: option.splits)

text \<open>
  The method runs only after the lock check of \<^verbatim>\<open>getAuthenticated\<close> has passed, on the same
  document, so the guard holds whenever the method runs.
\<close>

lemma incLoginAttempts_after_lock_check:
  assumes "\<not> isLocked t_check u" and "t_check \<le> t_act"
  shows "incLoginAttempts t_act u =
     (if (\<exists>t. lockUntil u = Some t \<and> t < t_act)
      then u\<lparr>lockUntil := None, loginAttempts := 1\<rparr>
      else if 5 \<le> loginAttempts u + 1
        then u\<lparr>loginAttempts := loginAttempts u + 1, lockUntil := Some (t_act + 7200000)\<rparr>
        else u\<lparr>loginAttempts := loginAttempts u + 1\<rparr>)"
proof (cases "lockUntil u")
  case None
  then show ?thesis by (simp add: incLoginAttempts_def isLocked_def)
next
  case (Some t)
  with assms have "t \<le> t_act" by (simp add: isLocked_def)
  with Some show ?thesis by (simp add: incLoginAttempts_def isLocked_def)
qed

text \<open>
  C4. For every account state and every failed login attempt (a wrong password on an active
  account that the lock check has let through; the clock does not run backwards between the
  check and the update), login answers 401 "Invalid credentials" and the stored account goes
  through the failed-attempt transition: if a previous lock has expired (\<^verbatim>\<open>lockUntil\<close> set and
  in the past) the count becomes 1 and \<^verbatim>\<open>lockUntil\<close> is cleared; otherwise the count grows
  by 1, and if the new count reaches 5, \<^verbatim>\<open>lockUntil\<close> becomes now plus 2 hours.
\<close>

theorem failed_attempt_transition:
  assumes found: "findOne (\<lambda>d. email d = em \<and> isActive d) users = Some u"
      and unlocked: "\<not> isLocked t_check u"
      and wrong: "bcrypt_compare e pw (password u) = Some False"
      and clock: "t_check \<le> t_act"
  shows "login e users em pw t_check t_act t_sign =
           (fail 401 ''Invalid credentials'', updateById (uid u) (incLoginAttempts t_act) users)
       \<and> incLoginAttempts t_act u =
           (if (\<exists>t. lockUntil u = Some t \<and> t < t_act)
            then u\<lparr>lockUntil := None, loginAttempts := 1\<rparr>
            else if 5 \<le> loginAttempts u + 1
              then u\<lparr>loginAttempts := loginAttempts u + 1,
                     lockUntil := Some (t_act + 2 * 60 * 60 * 1000)\<rparr>
              else u\<lparr>loginAttempts := loginAttempts u + 1\<rparr>)"
proof -
  have two_hours: "(2 * 60 * 60 * 1000 :: int) = 7200000" by simp
  have answer: "login e users em pw t_check t_act t_sign =
           (fail 401 ''Invalid credentials'', updateById (uid u) (incLoginAttempts t_act) users)"
    using found unlocked wrong
    by (simp add: login_def getAuthenticated_def comparePassword_def)
  show ?thesis unfolding two_hours
    by (rule conjI[OF answer incLoginAttempts_after_lock_check[OF unlocked clock]])
qed

theorem failed_attempt_transition_witness:
  "login env0 [alice] ''alice@example.com'' ''wrong'' 1000000 1000200 1000201 =
     (fail 401 ''Invalid credentials'', [alice\<lparr>loginAttempts := 1\<rparr>]) \<and>
   login env0 [alice4] ''alice@example.com'' ''wrong'' 1000000 1000200 1000201 =
     (fail 401 ''Invalid credentials'', [alice\<lparr>loginAttempts := 5, lockUntil := Some 8200200\<rparr>]) \<and>
   login env0 [locked5] ''alice@example.com'' ''wrong'' 10000001 10000300 10000301 =
     (fail 401 ''Invalid credentials'', [alice\<lparr>loginAttempts := 1\<rparr>])"
proof -
  have f: "findOne (\<lambda>d. email d = ''alice@example.com'' \<and> isActive d) [alice] = Some alice"
    "findOne (\<lambda>d. email d = ''alice@example.com'' \<and> isActive d) [alice4] = Some alice4"
    "findOne (\<lambda>d. email d = ''alice@example.com'' \<and> isActive d) [locked5] = Some locked5"
    by (simp_all add: findOne_def alice4_def locked5_def alice_def)
  have l: "\<not> isLocked 1000000 alice" "\<not> isLocked 1000000 alice4" "\<not> isLocked 10000001 locked5"
    by (simp_all add: isLocked_def alice4_def locked5_def alice_def)
  have w: "bcrypt_compare env0 ''wrong'' (password alice) = Some False"
    "bcrypt_compare env0 ''wrong'' (password alice4) = Some False"
    "bcrypt_compare env0 ''wrong'' (password locked5) = Some False"
    by (simp_all add: env0_def alice4_def locked5_def alice_def)
  have c: "(1000000::int) \<le> 1000200" "(10000001::int) \<le> 10000300" by simp_all
  from failed_attempt_transition[OF f(1) l(1) w(1) c(1), of 1000201]
  have 1: "login env0 [alice] ''alice@example.com'' ''wrong'' 1000000 1000200 1000201 =
     (fail 401 ''Invalid credentials'', [alice\<lparr>loginAttempts := 1\<rparr>])"
    by (simp add: updateById_def alice_def)
  from failed_attempt_transition[OF f(2) l(2) w(2) c(1), of 1000201]
  have 2: "login env0 [alice4] ''alice@example.com'' ''wrong'' 1000000 1000200 1000201 =
     (fail 401 ''Invalid credentials'', [alice\<lparr>loginAttempts := 5, lockUntil := Some 8200200\<rparr>])"
    by (simp add: updateById_def alice4_def alice_def)
  from failed_attempt_transition[OF f(3) l(3) w(3) c(2), of 10000301]
  have 3: "login env0 [locked5] ''alice@example.com'' ''wrong'' 10000001 10000300 10000301 =
     (fail 401 ''Invalid credentials'', [alice\<lparr>loginAttempts := 1\<rparr>])"
    by (simp add: updateById_def locked5_def alice_def)
  from 1 2 3 show ?thesis by simp
qed

section \<open>Login\<close>

text \<open>
  C2 (as amended). A login attempt with an email of no active account and a login attempt
  with a wrong password on an unlocked account both answer 401, but with different messages:
  "User not found" and "Invalid credentials"; a locked account answers 401 with a third
  message. The wrong password also runs the failed-attempt transition on the stored account.
\<close>

theorem login_failure_messages:
  "(findOne (\<lambda>d. email d = em \<and> isActive d) users = None \<longrightarrow>
      login e users em pw t_check t_act t_sign = (fail 401 ''User not found'', users)) \<and>
   (\<forall>u. findOne (\<lambda>d. email d = em \<and> isActive d) users = Some u \<and> isLocked t_check u \<longrightarrow>
      login e users em pw t_check t_act t_sign =
        (fail 401 ''Account temporarily locked due to too many failed login attempts'', users)) \<and>
   (\<forall>u. findOne (\<lambda>d. email d = em \<and> isActive d) users = Some u \<and> \<not> isLocked t_check u
         \<and> bcrypt_compare e pw (password u) = Some False \<longrightarrow>
      login e users em pw t_check t_act t_sign =
        (fail 401 ''Invalid credentials'', updateById (uid u) (incLoginAttempts t_act) users))"
  by (simp add: login_def getAuthenticated_def comparePassword_def)

theorem login_failure_messages_witness:
  "login env0 [alice] ''nobody@example.com'' ''Abcdef1!'' 0 0 0 = (fail 401 ''User not found'', [alice]) \<and>
   login env0 [locked5] ''alice@example.com'' ''Abcdef1!'' 0 0 0 =
     (fail 401 ''Account temporarily locked due to too many failed login attempts'', [locked5]) \<and>
   login env0 [alice] ''alice@example.com'' ''wrong'' 0 0 0 =
     (fail 401 ''Invalid credentials'', [alice\<lparr>loginAttempts := 1\<rparr>])"
proof -
  have n: "findOne (\<lambda>d. email d = ''nobody@example.com'' \<and> isActive d) [alice] = None"
    by (simp add: findOne_def alice_def)
  have f: "findOne (\<lambda>d. email d = ''alice@example.com'' \<and> isActive d) [alice] = Some alice"
    by (simp add: findOne_def alice_def)
  have g: "findOne (\<lambda>d. email d = ''alice@example.com'' \<and> isActive d) [locked5] = Some locked5"
    by (simp add: findOne_def locked5_def alice_def)
  have l: "isLocked 0 locked5" by (simp add: isLocked_def locked5_def)
  have k: "\<not> isLocked 0 alice" by (simp add: isLocked_def alice_def)
  have w: "bcrypt_compare env0 ''wrong'' (password alice) = Some False"
    by (simp add: env0_def alice_def)
  have i: "updateById (uid alice) (incLoginAttempts 0) [alice] = [alice\<lparr>loginAttempts := 1\<rparr>]"
    by (simp add: updateById_def incLoginAttempts_def isLocked_def alice_def)
  from login_failure_messages[of "''nobody@example.com''" "[alice]" env0 "''Abcdef1!''" 0 0 0] n
  have 1: "login env0 [alice] ''nobody@example.com'' ''Abcdef1!'' 0 0 0 = (fail 401 ''User not found'', [alice])"
    by blast
  from login_failure_messages[of "''alice@example.com''" "[locked5]" env0 "''Abcdef1!''" 0 0 0] g l
  have 2: "login env0 [locked5] ''alice@example.com'' ''Abcdef1!'' 0 0 0 =
     (fail 401 ''Account temporarily locked due to too many failed login attempts'', [locked5])"
    by blast
  from login_failure_messages[of "''alice@example.com''" "[alice]" env0 "''wrong''" 0 0 0] f k w
  have 3: "login env0 [alice] ''alice@example.com'' ''wrong'' 0 0 0 =
     (fail 401 ''Invalid credentials'', updateById (uid alice) (incLoginAttempts 0) [alice])"
    by blast
  from 1 2 3 show ?thesis by (simp add: i)
qed

text \<open>
  C2 as stated fails: with one active account, the unknown email is answered
  "User not found" and the wrong password "Invalid credentials", so the response tells
  whether the account exists.
\<close>

theorem login_failure_messages_counterexample:
  "message (fst (login env0 [alice] ''nobody@example.com'' ''Abcdef1!'' 0 0 0)) = ''User not found'' \<and>
   message (fst (login env0 [alice] ''alice@example.com'' ''wrong'' 0 0 0)) = ''Invalid credentials'' \<and>
   message (fst (login env0 [alice] ''nobody@example.com'' ''Abcdef1!'' 0 0 0)) \<noteq>
   message (fst (login env0 [alice] ''alice@example.com'' ''wrong'' 0 0 0))"
  by (simp add: login_def getAuthenticated_def comparePassword_def findOne_def isLocked_def
      env0_def alice_def fail_def)

section \<open>Forgotten password\<close>

text \<open>
  C1 (as amended). \<^verbatim>\<open>POST /forgot-password\<close> answers 200 exactly when an active account has
  the email: it then stores the hash of a new reset token on that account, and with it the
  expiry, now plus the configured number of minutes, where \<^verbatim>\<open>PASSWORD_RESET_EXPIRE\<close> is
  configured. Where no active account has the email it answers 404 "There is no user with
  that email address" and stores nothing.
\<close>

theorem forgotPassword_found_or_404:
  "(findOne (\<lambda>d. email d = em \<and> isActive d) users = None \<longrightarrow>
      forgotPassword e users em now rnd =
        (fail 404 ''There is no user with that email address'', users)) \<and>
   (\<forall>u. findOne (\<lambda>d. email d = em \<and> isActive d) users = Some u \<longrightarrow>
      forgotPassword e users em now rnd =
        (fail 200 ''Password reset token sent to email!'',
         save (u\<lparr>passwordResetToken := Some (sha256 e (toHex (randomBytes 32 rnd))),
                 passwordResetExpire :=
                   (case PASSWORD_RESET_EXPIRE e of
                      Some m \<Rightarrow> Some (now + m * 60 * 1000)
                    | None \<Rightarrow> passwordResetExpire u)\<rparr>) users))"
  by (simp add: forgotPassword_def createPasswordResetToken_def parseInt_env_def assignDate_def
      Let_def split: option.splits)

theorem forgotPassword_found_or_404_witness:
  "forgotPassword env0 [alice] ''nobody@example.com'' 0 rnd0 =
     (fail 404 ''There is no user with that email address'', [alice]) \<and>
   forgotPassword env0 [alice] ''alice@example.com'' 0 rnd0 =
     (fail 200 ''Password reset token sent to email!'',
      [alice\<lparr>passwordResetToken := Some (sha256 env0 (toHex (randomBytes 32 rnd0))),
             passwordResetExpire := Some 600000\<rparr>]) \<and>
   forgotPassword (env0\<lparr>PASSWORD_RESET_EXPIRE := None\<rparr>) [alice] ''alice@example.com'' 0 rnd0 =
     (fail 200 ''Password reset token sent to email!'',
      [alice\<lparr>passwordResetToken := Some (sha256 env0 (toHex (randomBytes 32 rnd0)))\<rparr>])"
proof -
  have c: "PASSWORD_RESET_EXPIRE env0 = Some 10" by (simp add: env0_def)
  have n: "findOne (\<lambda>d. email d = ''nobody@example.com'' \<and> isActive d) [alice] = None"
    by (simp add: findOne_def alice_def)
  have f: "findOne (\<lambda>d. email d = ''alice@example.com'' \<and> isActive d) [alice] = Some alice"
    by (simp add: findOne_def alice_def)
  have s: "save (alice\<lparr>passwordResetToken := x, passwordResetExpire := y\<rparr>) [alice]
           = [alice\<lparr>passwordResetToken := x, passwordResetExpire := y\<rparr>]" for x y
    by (simp add: save_def updateById_def)
  have k: "save (alice\<lparr>passwordResetToken := x\<rparr>) [alice] = [alice\<lparr>passwordResetToken := x\<rparr>]" for x
    by (simp add: save_def updateById_def)
  from forgotPassword_found_or_404[of "''nobody@example.com''" "[alice]" env0 0 rnd0] n
  have 1: "forgotPassword env0 [alice] ''nobody@example.com'' 0 rnd0 =
     (fail 404 ''There is no user with that email address'', [alice])" by blast
  from forgotPassword_found_or_404[of "''alice@example.com''" "[alice]" env0 0 rnd0] f c
  have 2: "forgotPassword env0 [alice] ''alice@example.com'' 0 rnd0 =
     (fail 200 ''Password reset token sent to email!'',
      [alice\<lparr>passwordResetToken := Some (sha256 env0 (toHex (randomBytes 32 rnd0))),
             passwordResetExpire := Some 600000\<rparr>])" by (simp add: s)
  from forgotPassword_found_or_404[of "''alice@example.com''" "[alice]"
      "env0\<lparr>PASSWORD_RESET_EXPIRE := None\<rparr>" 0 rnd0] f
  have 3: "forgotPassword (env0\<lparr>PASSWORD_RESET_EXPIRE := None\<rparr>) [alice] ''alice@example.com'' 0 rnd0 =
     (fail 200 ''Password reset token sent to email!'',
      [alice\<lparr>passwordResetToken := Some (sha256 env0 (toHex (randomBytes 32 rnd0)))\<rparr>])"
    by (simp add: s k)
  from 1 2 3 show ?thesis by simp
qed

text \<open>
  C1 as stated fails: for an email of no account the answer is 404, not 200.
\<close>

theorem forgotPassword_unknown_counterexample:
  "status (fst (forgotPassword env0 [alice] ''nobody@example.com'' 0 rnd0)) = 404 \<and>
   status (fst (forgotPassword env0 [alice] ''nobody@example.com'' 0 rnd0)) \<noteq> 200"
  by (simp add: forgotPassword_def findOne_def alice_def fail_def)

section \<open>Lockout and login\<close>

lemma lockout_inv_incLoginAttempts: "lockout_inv u \<Longrightarrow> lockout_inv (incLoginAttempts now u)"
  by (cases "lockUntil u") (simp_all add: lockout_inv_def incLoginAttempts_def isLocked_def)

lemma lockout_inv_resetLoginAttempts: "lockout_inv (resetLoginAttempts u)"
  by (simp add: lockout_inv_def resetLoginAttempts_def)

lemma lockout_inv_lastLoginAt: "lockout_inv (u\<lparr>lastLoginAt := x\<rparr>) = lockout_inv u"
  by (simp add: lockout_inv_def split: option.splits)

lemma lockout_inv_updateById:
  assumes "\<forall>d\<in>set users. lockout_inv d" and "\<And>d. lockout_inv d \<Longrightarrow> lockout_inv (f d)"
  shows "\<forall>d\<in>set (updateById i f users). lockout_inv d"
  using assms by (auto simp: set_updateById)

lemma lockout_inv_getAuthenticated:
  assumes "\<forall>d\<in>set users. lockout_inv d"
      and "getAuthenticated e users em pw t_check t_act = Some (r, users')"
  shows "\<forall>d\<in>set users'. lockout_inv d"
proof (cases "findOne (\<lambda>d. email d = em \<and> isActive d) users")
  case None
  with assms show ?thesis by (simp add: getAuthenticated_def)
next
  case (Some u)
  show ?thesis
  proof (cases "isLocked t_check u")
    case True
    with Some assms show ?thesis by (simp add: getAuthenticated_def)
  next
    case False
    note unlocked = this
    show ?thesis
    proof (cases "comparePassword e u pw")
      case None
      with Some unlocked assms show ?thesis by (simp add: getAuthenticated_def)
    next
      case (Some b)
      have a: "\<forall>d\<in>set (updateById (uid u) (incLoginAttempts t_act) users). lockout_inv d"
        by (rule lockout_inv_updateById[OF assms(1)]) (rule lockout_inv_incLoginAttempts)
      have b: "\<forall>d\<in>set (updateById (uid u) resetLoginAttempts users). lockout_inv d"
        by (rule lockout_inv_updateById[OF assms(1)]) (rule lockout_inv_resetLoginAttempts)
      have c: "\<forall>d\<in>set (updateById (uid u) (\<lambda>d. d\<lparr>lastLoginAt := Some t_act\<rparr>) us). lockout_inv d"
        if "\<forall>d\<in>set us. lockout_inv d" for us
        by (rule lockout_inv_updateById[OF that]) (simp add: lockout_inv_lastLoginAt)
      from Some \<open>findOne _ users = Some u\<close> unlocked assms(2) a c[OF b] c[OF assms(1)]
      show ?thesis
        by (cases b) (auto simp: getAuthenticated_def Let_def split: if_splits)
    qed
  qed
qed

text \<open>
  C3. An account whose \<^verbatim>\<open>lockUntil\<close> is in the future is answered 401 "Account temporarily
  locked ..." whatever the password and whatever \<^verbatim>\<open>bcrypt.compare\<close> would say, and nothing is
  written. At or after \<^verbatim>\<open>lockUntil\<close>, a login with the correct password succeeds (200 with a
  session token), and the stored account then has \<^verbatim>\<open>loginAttempts\<close> 0 and no \<^verbatim>\<open>lockUntil\<close>.
  The account is one the code has produced: its lock came with a count of at least 5.
\<close>

theorem locked_login:
  assumes found: "findOne (\<lambda>d. email d = em \<and> isActive d) users = Some u"
      and lock: "lockUntil u = Some t"
      and inv: "lockout_inv u"
  shows
  "(t_check < t \<longrightarrow>
      login e users em pw t_check t_act t_sign =
        (fail 401 ''Account temporarily locked due to too many failed login attempts'', users)) \<and>
   (t \<le> t_check \<and> bcrypt_compare e pw (password u) = Some True \<longrightarrow>
      login e users em pw t_check t_act t_sign =
        (createSendToken e t_sign (u\<lparr>lastLoginAt := Some t_act\<rparr>) 200 ''Logged in successfully'',
         updateById (uid u)
           (\<lambda>d. d\<lparr>loginAttempts := 0, lockUntil := None, lastLoginAt := Some t_act\<rparr>) users)
      \<and> (\<forall>d\<in>set (snd (login e users em pw t_check t_act t_sign)).
             uid d = uid u \<longrightarrow> loginAttempts d = 0 \<and> lockUntil d = None))"
proof -
  from lock inv have pos: "0 < loginAttempts u" by (simp add: lockout_inv_def)
  have upd: "updateById (uid u) (\<lambda>d. d\<lparr>lastLoginAt := Some t_act\<rparr>)
               (updateById (uid u) resetLoginAttempts users) =
             updateById (uid u)
               (\<lambda>d. d\<lparr>loginAttempts := 0, lockUntil := None, lastLoginAt := Some t_act\<rparr>) users"
    by (simp add: updateById_def resetLoginAttempts_def)
  have locked: "login e users em pw t_check t_act t_sign =
        (fail 401 ''Account temporarily locked due to too many failed login attempts'', users)"
    if "t_check < t"
    using found lock that by (simp add: login_def getAuthenticated_def isLocked_def)
  have ok: "login e users em pw t_check t_act t_sign =
        (createSendToken e t_sign (u\<lparr>lastLoginAt := Some t_act\<rparr>) 200 ''Logged in successfully'',
         updateById (uid u)
           (\<lambda>d. d\<lparr>loginAttempts := 0, lockUntil := None, lastLoginAt := Some t_act\<rparr>) users)"
    if "t \<le> t_check" and "bcrypt_compare e pw (password u) = Some True"
    using found lock pos that upd
    by (simp add: login_def getAuthenticated_def comparePassword_def isLocked_def)
  have cleared: "\<forall>d\<in>set (updateById (uid u)
           (\<lambda>d. d\<lparr>loginAttempts := 0, lockUntil := None, lastLoginAt := Some t_act\<rparr>) users).
             uid d = uid u \<longrightarrow> loginAttempts d = 0 \<and> lockUntil d = None"
    by (auto simp: set_updateById)
  from locked ok cleared show ?thesis by simp
qed

theorem locked_login_witness:
  "login env0 [locked5] ''alice@example.com'' ''Abcdef1!'' 9999999 9999999 9999999 =
     (fail 401 ''Account temporarily locked due to too many failed login attempts'', [locked5]) \<and>
   login env0 [locked5] ''alice@example.com'' ''Abcdef1!'' 10000000 10000300 10000301 =
     (createSendToken env0 10000301 (locked5\<lparr>lastLoginAt := Some 10000300\<rparr>) 200 ''Logged in successfully'',
      [alice\<lparr>lastLoginAt := Some 10000300\<rparr>])"
proof -
  have f: "findOne (\<lambda>d. email d = ''alice@example.com'' \<and> isActive d) [locked5] = Some locked5"
    by (simp add: findOne_def locked5_def alice_def)
  have l: "lockUntil locked5 = Some 10000000" by (simp add: locked5_def)
  have i: "lockout_inv locked5" by (simp add: lockout_inv_def locked5_def)
  have m: "bcrypt_compare env0 ''Abcdef1!'' (password locked5) = Some True"
    by (simp add: env0_def locked5_def alice_def)
  have u: "updateById (uid locked5)
        (\<lambda>d. d\<lparr>loginAttempts := 0, lockUntil := None, lastLoginAt := Some 10000300\<rparr>) [locked5]
      = [alice\<lparr>lastLoginAt := Some 10000300\<rparr>]"
    by (simp add: updateById_def locked5_def alice_def)
  from locked_login[OF f l i, of 9999999 env0 "''Abcdef1!''" 9999999 9999999]
  have 1: "login env0 [locked5] ''alice@example.com'' ''Abcdef1!'' 9999999 9999999 9999999 =
     (fail 401 ''Account temporarily locked due to too many failed login attempts'', [locked5])"
    by simp
  from locked_login[OF f l i, of 10000000 env0 "''Abcdef1!''" 10000300 10000301] m
  have 2: "login env0 [locked5] ''alice@example.com'' ''Abcdef1!'' 10000000 10000300 10000301 =
     (createSendToken env0 10000301 (locked5\<lparr>lastLoginAt := Some 10000300\<rparr>) 200 ''Logged in successfully'',
      updateById (uid locked5)
        (\<lambda>d. d\<lparr>loginAttempts := 0, lockUntil := None, lastLoginAt := Some 10000300\<rparr>) [locked5])"
    by simp
  from 1 2 show ?thesis by (simp add: u)
qed

section \<open>The authentication gate\<close>

lemma findById_save:
  "findById i users = Some u \<Longrightarrow> uid u' = i \<Longrightarrow> findById i (save u' users) = Some u'"
  by (induction users) (auto simp: findById_def findOne_def save_def updateById_def)

lemma neg_div_1000: "- (a div 1000) - 1 \<le> (- a) div (1000::int) \<and> (- a) div (1000::int) \<le> - (a div 1000)"
  by (simp add: zdiv_zminus1_eq_if)

lemma changedTimestamp_floor: "ms div 1000 \<le> changedTimestamp ms"
proof (cases "0 \<le> ms")
  case True
  then show ?thesis by (simp add: changedTimestamp_def)
next
  case False
  have "ms div 1000 = (- (- ms)) div 1000" by simp
  also have "\<dots> \<le> - ((- ms) div 1000)" using neg_div_1000[of "- ms"] by blast
  finally show ?thesis using False by (simp add: changedTimestamp_def)
qed

lemma changedTimestamp_second_before: "changedTimestamp (t - 1000) \<le> t div 1000"
proof (cases "1000 \<le> t")
  case True
  then show ?thesis by (simp add: changedTimestamp_def)
next
  case False
  have "(1000 - t) div 1000 = (- t) div 1000 + 1" 
    using div_add_self2[of "1000::int" "- t"] by simp
  moreover have "- (t div 1000) - 1 \<le> (- t) div 1000" using neg_div_1000[of t] by blast
  ultimately have "- ((1000 - t) div 1000) \<le> t div 1000" by linarith
  with False show ?thesis by (simp add: changedTimestamp_def)
qed

lemma two_seconds_before:
  assumes "t_issue + 2000 \<le> t_change"
  shows "t_issue div 1000 < changedTimestamp (t_change - 1000)"
proof -
  have "(t_issue + 2000) div 1000 \<le> t_change div 1000"
    using assms by (rule zdiv_mono1) simp
  moreover have "(t_issue + 2000) div 1000 = t_issue div 1000 + 2" by simp
  ultimately have "t_issue div 1000 < (t_change - 1000) div 1000" by simp
  also have "\<dots> \<le> changedTimestamp (t_change - 1000)" by (rule changedTimestamp_floor)
  finally show ?thesis .
qed

lemma tok_generateAuthToken:
  "tok_iat (payload (generateAuthToken e now u)) = now div 1000"
  "tok_exp (payload (generateAuthToken e now u)) = now div 1000 + expiresIn e"
  "tok_id (payload (generateAuthToken e now u)) = uid u"
  "signature (generateAuthToken e now u) = hmac e (JWT_SECRET e) (payload (generateAuthToken e now u))"
  by (simp_all add: generateAuthToken_def jwt_sign_def Let_def)

lemma protect_valid_token:
  assumes "signature tok = hmac e (JWT_SECRET e) (payload tok)"
      and "now div 1000 < tok_exp (payload tok)"
      and "findById (tok_id (payload tok)) users = Some u"
  shows "protect e users now (Some tok) =
     (if \<not> isActive u
      then Inl (fail 401 ''Your account has been deactivated. Please contact support.'')
      else if changedPasswordAfter u (tok_iat (payload tok))
      then Inl (fail 401 ''User recently changed password! Please log in again.'')
      else Inr u)"
  using assms by (simp add: protect_def jwt_verify_def)

text \<open>
  C9. A request whose token has a valid signature and has not expired, and whose account is
  stored with \<^verbatim>\<open>isActive\<close> false, is answered 401 by \<^verbatim>\<open>protect\<close>; the handler behind
  \<^verbatim>\<open>protect\<close> does not run and the store is unchanged.
\<close>

theorem protect_rejects_deactivated:
  assumes "signature tok = hmac e (JWT_SECRET e) (payload tok)"
      and "now div 1000 < tok_exp (payload tok)"
      and "findById (tok_id (payload tok)) users = Some u"
      and "\<not> isActive u"
  shows "protect e users now (Some tok) =
           Inl (fail 401 ''Your account has been deactivated. Please contact support.'')
       \<and> protected e now handler (Some tok) users =
           (fail 401 ''Your account has been deactivated. Please contact support.'', users)"
  using assms by (simp add: protected_def protect_valid_token)

theorem protect_rejects_deactivated_witness:
  "protect env0 [alice\<lparr>isActive := False\<rparr>] 1000 (Some (generateAuthToken env0 0 alice)) =
     Inl (fail 401 ''Your account has been deactivated. Please contact support.'') \<and>
   protected env0 1000 (\<lambda>u users. (fail 200 ''done'', [])) (Some (generateAuthToken env0 0 alice))
     [alice\<lparr>isActive := False\<rparr>] =
     (fail 401 ''Your account has been deactivated. Please contact support.'',
      [alice\<lparr>isActive := False\<rparr>])"
proof -
  have s: "signature (generateAuthToken env0 0 alice) =
           hmac env0 (JWT_SECRET env0) (payload (generateAuthToken env0 0 alice))"
    by (rule tok_generateAuthToken)
  have x: "1000 div 1000 < tok_exp (payload (generateAuthToken env0 0 alice))"
    by (simp add: tok_generateAuthToken expiresIn_def env0_def)
  have f: "findById (tok_id (payload (generateAuthToken env0 0 alice))) [alice\<lparr>isActive := False\<rparr>]
           = Some (alice\<lparr>isActive := False\<rparr>)"
    by (simp add: tok_generateAuthToken findById_def findOne_def)
  have a: "\<not> isActive (alice\<lparr>isActive := False\<rparr>)" by simp
  from protect_rejects_deactivated[OF s x f a] show ?thesis by simp
qed

section \<open>Session tokens and password changes\<close>

lemma fresh_token_passes:
  assumes "passwordChangedAt u = Some (t_save - 1000)" and "t_save \<le> t_sign"
  shows "\<not> changedPasswordAfter u (tok_iat (payload (generateAuthToken e t_sign v)))"
proof -
  have "changedTimestamp (t_save - 1000) \<le> t_save div 1000"
    by (rule changedTimestamp_second_before)
  also have "\<dots> \<le> t_sign div 1000" using assms(2) by (rule zdiv_mono1) simp
  finally show ?thesis using assms(1)
    by (simp add: changedPasswordAfter_def tok_generateAuthToken)
qed

lemma stale_token_fails:
  assumes "passwordChangedAt u = Some (t_save - 1000)" and "t_issue + 2000 \<le> t_save"
  shows "changedPasswordAfter u (tok_iat (payload (generateAuthToken e t_issue v)))"
  using assms two_seconds_before[OF assms(2)]
  by (simp add: changedPasswordAfter_def tok_generateAuthToken)

text \<open>
  C6 (as amended). For a token with a valid signature that has not expired, of an active
  account whose password was last changed at \<open>t_change\<close> (so that the hook has recorded
  \<open>t_change - 1000\<close>), \<^verbatim>\<open>protect\<close> answers 401 "User recently changed password!" exactly
  when the second in which the token was issued is at least two seconds before the second of
  the change; this covers every token issued 2000 ms or more before the change. A token issued
  in the second of the change or in the second before it is still accepted.
\<close>

theorem protect_after_password_change:
  assumes "signature tok = hmac e (JWT_SECRET e) (payload tok)"
      and "now div 1000 < tok_exp (payload tok)"
      and "findById (tok_id (payload tok)) users = Some u"
      and "isActive u"
      and "passwordChangedAt u = Some (t_change - 1000)"
      and "1000 \<le> t_change"
      and "tok_iat (payload tok) = t_issue div 1000"
  shows "protect e users now (Some tok) =
           (if t_issue div 1000 + 2 \<le> t_change div 1000
            then Inl (fail 401 ''User recently changed password! Please log in again.'')
            else Inr u)
       \<and> (t_issue + 2000 \<le> t_change \<longrightarrow>
            protect e users now (Some tok) =
              Inl (fail 401 ''User recently changed password! Please log in again.''))"
proof -
  have c: "changedPasswordAfter u (tok_iat (payload tok)) = (t_issue div 1000 + 2 \<le> t_change div 1000)"
    using assms(5,6,7) by (auto simp: changedPasswordAfter_def changedTimestamp_def)
  have p: "protect e users now (Some tok) =
           (if t_issue div 1000 + 2 \<le> t_change div 1000
            then Inl (fail 401 ''User recently changed password! Please log in again.'')
            else Inr u)"
    using assms(4) c by (simp add: protect_valid_token[OF assms(1,2,3)])
  have "t_issue div 1000 + 2 \<le> t_change div 1000" if "t_issue + 2000 \<le> t_change"
  proof -
    have "(t_issue + 2000) div 1000 \<le> t_change div 1000" using that by (rule zdiv_mono1) simp
    then show ?thesis by simp
  qed
  with p show ?thesis by simp
qed

theorem protect_after_password_change_witness:
  "protect env0
     (snd (updatePassword env0 [alice] alice ''Abcdef1!'' ''Newpass1!'' 1700000003000 1700000003000))
     1700000004000 (Some (generateAuthToken env0 1700000000500 alice)) =
   Inl (fail 401 ''User recently changed password! Please log in again.'')"
proof -
  let ?u = "alice\<lparr>password := ''$Newpass1!'', passwordChangedAt := Some (1700000003000 - 1000)\<rparr>"
  let ?tok = "generateAuthToken env0 1700000000500 alice"
  have db: "snd (updatePassword env0 [alice] alice ''Abcdef1!'' ''Newpass1!'' 1700000003000 1700000003000)
            = [?u]"
    by (simp add: updatePassword_def findById_def findOne_def comparePassword_def pre_save_def
        save_def updateById_def env0_def alice_def Let_def)
  have s: "signature ?tok = hmac env0 (JWT_SECRET env0) (payload ?tok)"
    by (rule tok_generateAuthToken)
  have x: "1700000004000 div 1000 < tok_exp (payload ?tok)"
    by (simp add: tok_generateAuthToken expiresIn_def env0_def)
  have f: "findById (tok_id (payload ?tok)) [?u] = Some ?u"
    by (simp add: tok_generateAuthToken findById_def findOne_def)
  have a: "isActive ?u" by (simp add: alice_def)
  have c: "passwordChangedAt ?u = Some (1700000003000 - 1000)" by simp
  have i: "tok_iat (payload ?tok) = 1700000000500 div 1000" by (rule tok_generateAuthToken)
  have b: "(1700000000500::int) + 2000 \<le> 1700000003000" by simp
  from protect_after_password_change[OF s x f a c _ i] b db show ?thesis by simp
qed

text \<open>
  C6 as stated fails: a token issued at 1700000002100, 900 ms before the password is
  changed at 1700000003000, is still accepted by \<^verbatim>\<open>protect\<close> after the change.
\<close>

theorem protect_token_before_change_counterexample:
  "protect env0
     (snd (updatePassword env0 [alice] alice ''Abcdef1!'' ''Newpass1!'' 1700000003000 1700000003000))
     1700000004000 (Some (generateAuthToken env0 1700000002100 alice)) =
   Inr (alice\<lparr>password := ''$Newpass1!'', passwordChangedAt := Some 1700000002000\<rparr>)"
  by (simp add: updatePassword_def findById_def findOne_def comparePassword_def pre_save_def
      save_def updateById_def protect_def jwt_verify_def generateAuthToken_def jwt_sign_def
      expiresIn_def changedPasswordAfter_def changedTimestamp_def env0_def alice_def Let_def)

lemma fresh_token_accepted:
  assumes "findById (uid u) users = Some u" and "isActive u"
      and "passwordChangedAt u = Some (t_save - 1000)" and "t_save \<le> t_sign"
      and "t_verify div 1000 < t_sign div 1000 + expiresIn e"
  shows "protect e users t_verify (Some (generateAuthToken e t_sign u)) = Inr u"
proof -
  let ?tok = "generateAuthToken e t_sign u"
  have s: "signature ?tok = hmac e (JWT_SECRET e) (payload ?tok)" by (rule tok_generateAuthToken)
  have x: "t_verify div 1000 < tok_exp (payload ?tok)" using assms(5) by (simp add: tok_generateAuthToken)
  have f: "findById (tok_id (payload ?tok)) users = Some u" using assms(1) by (simp add: tok_generateAuthToken)
  from fresh_token_passes[OF assms(3,4)] assms(2) show ?thesis
    by (simp add: protect_valid_token[OF s x f])
qed

text \<open>
  C10 (as amended). When \<^verbatim>\<open>PATCH /update-password\<close> changes the password (the new password
  is not the stored digest itself) and when \<^verbatim>\<open>PATCH /reset-password/:token\<close> resets it,
  \<^verbatim>\<open>passwordChangedAt\<close> is stored as the save time minus 1000 ms. The session token of the
  same response, signed at or after the save, passes \<^verbatim>\<open>changedPasswordAfter\<close> and is accepted
  by \<^verbatim>\<open>protect\<close> while it has not expired and the account is active. Every token issued
  2000 ms or more before the save fails \<^verbatim>\<open>changedPasswordAfter\<close>.
\<close>

theorem password_change_timestamp:
  assumes "t_save \<le> t_sign"
  shows
  "(\<forall>u. findById (uid reqUser) users = Some u
        \<and> bcrypt_compare e currentPassword (password u) = Some True
        \<and> newPassword \<noteq> password u \<longrightarrow>
      (let u' = u\<lparr>password := bcrypt_hash e newPassword (saltRounds e),
                   passwordChangedAt := Some (t_save - 1000)\<rparr>
       in updatePassword e users reqUser currentPassword newPassword t_save t_sign =
            (createSendToken e t_sign u' 200 ''Password updated successfully'', save u' users)
        \<and> \<not> changedPasswordAfter u' (tok_iat (payload (generateAuthToken e t_sign u')))
        \<and> (isActive u \<and> t_verify div 1000 < t_sign div 1000 + expiresIn e \<longrightarrow>
             protect e (save u' users) t_verify (Some (generateAuthToken e t_sign u')) = Inr u')
        \<and> (\<forall>t_issue v. t_issue + 2000 \<le> t_save \<longrightarrow>
             changedPasswordAfter u' (tok_iat (payload (generateAuthToken e t_issue v)))))) \<and>
   (\<forall>u. findOne (\<lambda>d. passwordResetToken d = Some (sha256 e tokenParam)
                     \<and> gt_date (passwordResetExpire d) t_query \<and> isActive d) users = Some u \<longrightarrow>
      (let u' = u\<lparr>passwordResetToken := None, passwordResetExpire := None,
                   password := bcrypt_hash e newPassword (saltRounds e),
                   passwordChangedAt := Some (t_save - 1000)\<rparr>
       in resetPassword e users tokenParam newPassword t_query t_save t_sign =
            (createSendToken e t_sign u' 200 ''Password reset successfully'', save u' users)
        \<and> \<not> changedPasswordAfter u' (tok_iat (payload (generateAuthToken e t_sign u')))
        \<and> (findById (uid u) users = Some u \<and> t_verify div 1000 < t_sign div 1000 + expiresIn e \<longrightarrow>
             protect e (save u' users) t_verify (Some (generateAuthToken e t_sign u')) = Inr u')
        \<and> (\<forall>t_issue v. t_issue + 2000 \<le> t_save \<longrightarrow>
             changedPasswordAfter u' (tok_iat (payload (generateAuthToken e t_issue v))))))"
proof -
  have upd: "let u' = u\<lparr>password := bcrypt_hash e newPassword (saltRounds e),
                   passwordChangedAt := Some (t_save - 1000)\<rparr>
       in updatePassword e users reqUser currentPassword newPassword t_save t_sign =
            (createSendToken e t_sign u' 200 ''Password updated successfully'', save u' users)
        \<and> \<not> changedPasswordAfter u' (tok_iat (payload (generateAuthToken e t_sign u')))
        \<and> (isActive u \<and> t_verify div 1000 < t_sign div 1000 + expiresIn e \<longrightarrow>
             protect e (save u' users) t_verify (Some (generateAuthToken e t_sign u')) = Inr u')
        \<and> (\<forall>t_issue v. t_issue + 2000 \<le> t_save \<longrightarrow>
             changedPasswordAfter u' (tok_iat (payload (generateAuthToken e t_issue v))))"
    if f: "findById (uid reqUser) users = Some u"
      and m: "bcrypt_compare e currentPassword (password u) = Some True"
      and n: "newPassword \<noteq> password u" for u
  proof -
    define u' where "u' = u\<lparr>password := bcrypt_hash e newPassword (saltRounds e),
                   passwordChangedAt := Some (t_save - 1000)\<rparr>"
    have c: "passwordChangedAt u' = Some (t_save - 1000)" by (simp add: u'_def)
    have i: "uid u' = uid reqUser"
      using findOne_Some_set[OF f[unfolded findById_def]] by (simp add: u'_def)
    have r: "updatePassword e users reqUser currentPassword newPassword t_save t_sign =
            (createSendToken e t_sign u' 200 ''Password updated successfully'', save u' users)"
      using f m n by (simp add: updatePassword_def comparePassword_def pre_save_def Let_def u'_def)
    have g: "findById (uid u') (save u' users) = Some u'"
      using findById_save[OF f i] i by simp
    have a: "protect e (save u' users) t_verify (Some (generateAuthToken e t_sign u')) = Inr u'"
      if "isActive u" and "t_verify div 1000 < t_sign div 1000 + expiresIn e"
      by (rule fresh_token_accepted[OF g _ c assms that(2)]) (simp add: u'_def that(1))
    from r fresh_token_passes[OF c assms] a stale_token_fails[OF c]
    show ?thesis unfolding Let_def u'_def[symmetric] by blast
  qed
  have rst: "let u' = u\<lparr>passwordResetToken := None, passwordResetExpire := None,
                   password := bcrypt_hash e newPassword (saltRounds e),
                   passwordChangedAt := Some (t_save - 1000)\<rparr>
       in resetPassword e users tokenParam newPassword t_query t_save t_sign =
            (createSendToken e t_sign u' 200 ''Password reset successfully'', save u' users)
        \<and> \<not> changedPasswordAfter u' (tok_iat (payload (generateAuthToken e t_sign u')))
        \<and> (findById (uid u) users = Some u \<and> t_verify div 1000 < t_sign div 1000 + expiresIn e \<longrightarrow>
             protect e (save u' users) t_verify (Some (generateAuthToken e t_sign u')) = Inr u')
        \<and> (\<forall>t_issue v. t_issue + 2000 \<le> t_save \<longrightarrow>
             changedPasswordAfter u' (tok_iat (payload (generateAuthToken e t_issue v))))"
    if f: "findOne (\<lambda>d. passwordResetToken d = Some (sha256 e tokenParam)
                     \<and> gt_date (passwordResetExpire d) t_query \<and> isActive d) users = Some u" for u
  proof -
    define u' where "u' = u\<lparr>passwordResetToken := None, passwordResetExpire := None,
                   password := bcrypt_hash e newPassword (saltRounds e),
                   passwordChangedAt := Some (t_save - 1000)\<rparr>"
    have c: "passwordChangedAt u' = Some (t_save - 1000)" by (simp add: u'_def)
    have act: "isActive u'" using findOne_Some_set[OF f] by (simp add: u'_def)
    have r: "resetPassword e users tokenParam newPassword t_query t_save t_sign =
            (createSendToken e t_sign u' 200 ''Password reset successfully'', save u' users)"
      using f by (simp add: resetPassword_def pre_save_def Let_def u'_def)
    have a: "protect e (save u' users) t_verify (Some (generateAuthToken e t_sign u')) = Inr u'"
      if g: "findById (uid u) users = Some u" and x: "t_verify div 1000 < t_sign div 1000 + expiresIn e"
    proof -
      have "findById (uid u') (save u' users) = Some u'"
        using findById_save[OF g, of u'] by (simp add: u'_def)
      from fresh_token_accepted[OF this act c assms x] show ?thesis .
    qed
    from r fresh_token_passes[OF c assms] a stale_token_fails[OF c]
    show ?thesis unfolding Let_def u'_def[symmetric] by blast
  qed
  from upd rst show ?thesis by blast
qed

theorem password_change_timestamp_witness:
  "updatePassword env0 [alice] alice ''Abcdef1!'' ''Newpass1!'' 1700000003000 1700000003005 =
     (createSendToken env0 1700000003005
        (alice\<lparr>password := ''$Newpass1!'', passwordChangedAt := Some 1700000002000\<rparr>)
        200 ''Password updated successfully'',
      [alice\<lparr>password := ''$Newpass1!'', passwordChangedAt := Some 1700000002000\<rparr>]) \<and>
   protect env0 [alice\<lparr>password := ''$Newpass1!'', passwordChangedAt := Some 1700000002000\<rparr>]
     1700000004000
     (Some (generateAuthToken env0 1700000003005
        (alice\<lparr>password := ''$Newpass1!'', passwordChangedAt := Some 1700000002000\<rparr>))) =
     Inr (alice\<lparr>password := ''$Newpass1!'', passwordChangedAt := Some 1700000002000\<rparr>) \<and>
   changedPasswordAfter (alice\<lparr>password := ''$Newpass1!'', passwordChangedAt := Some 1700000002000\<rparr>)
     (tok_iat (payload (generateAuthToken env0 1700000000500 alice))) \<and>
   resetPassword env0 [alice_reset] ''tok'' ''Newpass1!'' 1700000002990 1700000003000 1700000003005 =
     (createSendToken env0 1700000003005
        (alice\<lparr>password := ''$Newpass1!'', passwordChangedAt := Some 1700000002000\<rparr>)
        200 ''Password reset successfully'',
      [alice\<lparr>password := ''$Newpass1!'', passwordChangedAt := Some 1700000002000\<rparr>]) \<and>
   protect env0
     (snd (resetPassword env0 [alice_reset] ''tok'' ''Newpass1!'' 1700000002990 1700000003000 1700000003005))
     1700000004000
     (token (fst (resetPassword env0 [alice_reset] ''tok'' ''Newpass1!''
                    1700000002990 1700000003000 1700000003005))) =
     Inr (alice\<lparr>password := ''$Newpass1!'', passwordChangedAt := Some 1700000002000\<rparr>)"
proof -
  have le: "(1700000003000::int) \<le> 1700000003005" by simp
  have f: "findById (uid alice) [alice] = Some alice" by (simp add: findById_def findOne_def)
  have m: "bcrypt_compare env0 ''Abcdef1!'' (password alice) = Some True" by (simp add: env0_def alice_def)
  have n: "''Newpass1!'' \<noteq> password alice" by (simp add: alice_def)
  have a: "isActive alice" by (simp add: alice_def)
  have x: "(1700000004000::int) div 1000 < 1700000003005 div 1000 + expiresIn env0"
    by (simp add: expiresIn_def env0_def)
  have b: "(1700000000500::int) + 2000 \<le> 1700000003000" by simp
  have g: "findOne (\<lambda>d. passwordResetToken d = Some (sha256 env0 ''tok'')
                     \<and> gt_date (passwordResetExpire d) 1700000002990 \<and> isActive d) [alice_reset]
           = Some alice_reset"
    by (simp add: findOne_def alice_reset_def alice_def env0_def)
  have h: "bcrypt_hash env0 ''Newpass1!'' (saltRounds env0) = ''$Newpass1!''" by (simp add: env0_def)
  have k: "alice_reset\<lparr>passwordResetToken := None, passwordResetExpire := None\<rparr> = alice"
    by (simp add: alice_reset_def alice_def)
  have s1: "save (alice\<lparr>password := p, passwordChangedAt := c\<rparr>) [alice]
           = [alice\<lparr>password := p, passwordChangedAt := c\<rparr>]" for p c
    by (simp add: save_def updateById_def)
  have s2: "save (alice\<lparr>password := p, passwordChangedAt := c\<rparr>) [alice_reset]
           = [alice\<lparr>password := p, passwordChangedAt := c\<rparr>]" for p c
    by (simp add: save_def updateById_def alice_reset_def alice_def)
  note T = password_change_timestamp[OF le, unfolded Let_def, THEN conjunct1, rule_format,
      where reqUser = alice and users = "[alice]" and e = env0 and currentPassword = "''Abcdef1!''"
        and newPassword = "''Newpass1!''" and u = alice and t_verify = 1700000004000]
  note R = password_change_timestamp[OF le, unfolded Let_def, THEN conjunct2, rule_format,
      where users = "[alice_reset]" and e = env0 and tokenParam = "''tok''"
        and newPassword = "''Newpass1!''" and u = alice_reset and t_query = 1700000002990]
  from T[OF conjI[OF f conjI[OF m n]]] a x b
  have 1: "updatePassword env0 [alice] alice ''Abcdef1!'' ''Newpass1!'' 1700000003000 1700000003005 =
     (createSendToken env0 1700000003005
        (alice\<lparr>password := ''$Newpass1!'', passwordChangedAt := Some 1700000002000\<rparr>)
        200 ''Password updated successfully'',
      [alice\<lparr>password := ''$Newpass1!'', passwordChangedAt := Some 1700000002000\<rparr>])"
    and 2: "protect env0 [alice\<lparr>password := ''$Newpass1!'', passwordChangedAt := Some 1700000002000\<rparr>]
     1700000004000
     (Some (generateAuthToken env0 1700000003005
        (alice\<lparr>password := ''$Newpass1!'', passwordChangedAt := Some 1700000002000\<rparr>))) =
     Inr (alice\<lparr>password := ''$Newpass1!'', passwordChangedAt := Some 1700000002000\<rparr>)"
    and 3: "changedPasswordAfter (alice\<lparr>password := ''$Newpass1!'', passwordChangedAt := Some 1700000002000\<rparr>)
     (tok_iat (payload (generateAuthToken env0 1700000000500 alice)))"
    by (simp_all add: h s1)
  have gi: "findById (uid alice_reset) [alice_reset] = Some alice_reset"
    by (simp add: findById_def findOne_def)
  from R[OF g, where t_verify = 1700000004000] gi x
  have 5: "protect env0 [alice\<lparr>password := ''$Newpass1!'', passwordChangedAt := Some 1700000002000\<rparr>]
     1700000004000
     (Some (generateAuthToken env0 1700000003005
        (alice\<lparr>password := ''$Newpass1!'', passwordChangedAt := Some 1700000002000\<rparr>))) =
     Inr (alice\<lparr>password := ''$Newpass1!'', passwordChangedAt := Some 1700000002000\<rparr>)"
    by (simp add: h k s2)
  from R[OF g]
  have 4: "resetPassword env0 [alice_reset] ''tok'' ''Newpass1!'' 1700000002990 1700000003000 1700000003005 =
     (createSendToken env0 1700000003005
        (alice\<lparr>password := ''$Newpass1!'', passwordChangedAt := Some 1700000002000\<rparr>)
        200 ''Password reset successfully'',
      [alice\<lparr>password := ''$Newpass1!'', passwordChangedAt := Some 1700000002000\<rparr>])"
    by (simp add: h k s2)
  from 1 2 3 4 5 show ?thesis by (simp add: createSendToken_def)
qed

text \<open>
  C10 as stated fails in its last part: after the password is changed at 1700000003000 the
  stored \<^verbatim>\<open>passwordChangedAt\<close> is 1700000002000, and a token issued at 1700000002100, before
  the change, still passes \<^verbatim>\<open>changedPasswordAfter\<close>.
\<close>

theorem token_just_before_change_counterexample:
  "findById 1 (snd (updatePassword env0 [alice] alice ''Abcdef1!'' ''Newpass1!'' 1700000003000 1700000003005))
     = Some (alice\<lparr>password := ''$Newpass1!'', passwordChangedAt := Some 1700000002000\<rparr>) \<and>
   \<not> changedPasswordAfter (alice\<lparr>password := ''$Newpass1!'', passwordChangedAt := Some 1700000002000\<rparr>)
       (tok_iat (payload (generateAuthToken env0 1700000002100 alice)))"
  by (simp add: updatePassword_def findById_def findOne_def comparePassword_def pre_save_def
      save_def updateById_def generateAuthToken_def jwt_sign_def
      changedPasswordAfter_def changedTimestamp_def env0_def alice_def Let_def)

section \<open>Single-use tokens\<close>

lemma length_randomBytes: "length (randomBytes n rnd) = n"
  by (simp add: randomBytes_def)

lemma length_toHex: "length (toHex bs) = 2 * length bs"
  by (induction bs) (simp_all add: toHex_def)


lemma resetPassword_no_match:
  "findOne (\<lambda>d. passwordResetToken d = Some (sha256 e T)
                \<and> gt_date (passwordResetExpire d) tq \<and> isActive d) users = None \<Longrightarrow>
   resetPassword e users T pw tq ts tg = (fail 400 ''Token is invalid or has expired'', users)"
  by (simp add: resetPassword_def)

lemma verifyEmail_no_match:
  "findOne (\<lambda>d. emailVerificationToken d = Some (sha256 e T)
                \<and> gt_date (emailVerificationExpire d) tq \<and> isActive d) users = None \<Longrightarrow>
   verifyEmail e users T tq = (fail 400 ''Token is invalid or has expired'', users)"
  by (simp add: verifyEmail_def)







section \<open>Issuing tokens\<close>

lemma hexdigit_inj:
  assumes "a < 16" and "b < 16" and "hexdigit a = hexdigit b"
  shows "a = b"
proof -
  have d: "distinct ''0123456789abcdef''" by simp
  have l: "length ''0123456789abcdef'' = 16" by simp
  from assms have "''0123456789abcdef'' ! a = ''0123456789abcdef'' ! b"
    by (simp add: hexdigit_def)
  with nth_eq_iff_index_eq[OF d, of a b] assms(1,2) l show ?thesis by simp
qed

lemma byte_of_nibbles:
  fixes a b :: "8 word"
  assumes "unat a div 16 = unat b div 16" and "unat a mod 16 = unat b mod 16"
  shows "a = b"
proof -
  have "unat a = 16 * (unat a div 16) + unat a mod 16" by simp
  also have "\<dots> = 16 * (unat b div 16) + unat b mod 16" using assms by simp
  also have "\<dots> = unat b" by simp
  finally show ?thesis by (simp add: word_unat_eq_iff)
qed

lemma unat_byte_div16: "unat (b :: 8 word) div 16 < 16"
proof -
  have "unat b < 2 ^ LENGTH(8)" by (rule unsigned_less)
  then have "unat b < 256" by simp
  then show ?thesis by simp
qed

lemma toHex_Cons: "toHex (b # bs) = hexdigit (unat b div 16) # hexdigit (unat b mod 16) # toHex bs"
  by (simp add: toHex_def)

lemma toHex_inj: "toHex xs = toHex ys \<Longrightarrow> xs = ys"
proof (induction xs arbitrary: ys)
  case Nil
  then show ?case by (cases ys) (simp_all add: toHex_def)
next
  case (Cons x xs)
  then obtain y ys' where ys: "ys = y # ys'" by (cases ys) (simp_all add: toHex_def)
  from Cons.prems ys have h: "hexdigit (unat x div 16) = hexdigit (unat y div 16)"
    and l: "hexdigit (unat x mod 16) = hexdigit (unat y mod 16)"
    and t: "toHex xs = toHex ys'"
    by (simp_all add: toHex_Cons)
  from hexdigit_inj[OF unat_byte_div16 unat_byte_div16 h]
  have 1: "unat x div 16 = unat y div 16" .
  have 2: "unat x mod 16 = unat y mod 16"
    by (rule hexdigit_inj[OF _ _ l]) simp_all
  from byte_of_nibbles[OF 1 2] Cons.IH[OF t] ys show ?case by simp
qed

text \<open>
  \<^verbatim>\<open>createPasswordResetToken\<close> with \<^verbatim>\<open>PASSWORD_RESET_EXPIRE\<close> set to \<open>m\<close>: the token is the
  hexadecimal text of 32 random bytes (64 characters), the document keeps the sha256 of the
  token and not the token, and the expiry is now plus \<open>m\<close> minutes.
\<close>

theorem createPasswordResetToken_configured:
  "createPasswordResetToken (e\<lparr>PASSWORD_RESET_EXPIRE := Some m\<rparr>) now rnd u =
     (toHex (randomBytes 32 rnd),
      u\<lparr>passwordResetToken := Some (sha256 e (toHex (randomBytes 32 rnd))),
        passwordResetExpire := Some (now + m * 60000)\<rparr>) \<and>
   length (randomBytes 32 rnd) = 32 \<and>
   length (toHex (randomBytes 32 rnd)) = 64"
  by (simp add: createPasswordResetToken_def parseInt_env_def assignDate_def Let_def
      length_toHex length_randomBytes)

text \<open>
  \<^verbatim>\<open>createPasswordResetToken\<close> with \<^verbatim>\<open>PASSWORD_RESET_EXPIRE\<close> unset: the hash of the new
  token is written and the expiry keeps the value it had.
\<close>

theorem createPasswordResetToken_unconfigured:
  "createPasswordResetToken (e\<lparr>PASSWORD_RESET_EXPIRE := None\<rparr>) now rnd u =
     (toHex (randomBytes 32 rnd),
      u\<lparr>passwordResetToken := Some (sha256 e (toHex (randomBytes 32 rnd)))\<rparr>)"
  by (simp add: createPasswordResetToken_def parseInt_env_def assignDate_def Let_def)

text \<open>
  \<^verbatim>\<open>createEmailVerificationToken\<close>: the same token, the sha256 of it in the document, and
  the expiry now plus 24 hours (86400000 ms).
\<close>

theorem createEmailVerificationToken_day:
  "createEmailVerificationToken e now rnd u =
     (toHex (randomBytes 32 rnd),
      u\<lparr>emailVerificationToken := Some (sha256 e (toHex (randomBytes 32 rnd))),
        emailVerificationExpire := Some (now + 86400000)\<rparr>)"
  by (simp add: createEmailVerificationToken_def Let_def)

text \<open>The token determines all of its 32 random bytes: the encoding loses nothing.\<close>

theorem token_determines_bytes:
  "(fst (createPasswordResetToken e now rnd u) = fst (createPasswordResetToken e' now' rnd' u'))
     = (randomBytes 32 rnd = randomBytes 32 rnd')"
  by (auto simp: createPasswordResetToken_def Let_def dest: toHex_inj)

text \<open>
  C7. The random value has 32 bytes, only its sha256 is stored, and the email-verification
  expiry is now plus 24 hours, as the theorems above say. The reset expiry is
  \<^verbatim>\<open>Date.now() + parseInt(process.env.PASSWORD_RESET_EXPIRE) * 60 * 1000\<close>, with the comment
  "10 minutes" and no default. With the variable set to 10 the stored expiry is now plus
  600000 ms. With the variable unset no expiry of now plus 10 minutes is stored: an account
  that had none still has none, and the token just issued is answered 400; an account that
  had one keeps it, here 1700000600000 for a token issued at 1700000500000.
\<close>

theorem reset_expiry_without_configuration:
  "passwordResetExpire (snd (createPasswordResetToken env0 1700000000000 rnd0 alice))
     = Some 1700000600000 \<and>
   passwordResetExpire
     (snd (createPasswordResetToken (env0\<lparr>PASSWORD_RESET_EXPIRE := None\<rparr>) 1700000000000 rnd0 alice))
     = None \<and>
   resetPassword (env0\<lparr>PASSWORD_RESET_EXPIRE := None\<rparr>)
     (snd (forgotPassword (env0\<lparr>PASSWORD_RESET_EXPIRE := None\<rparr>) [alice]
             ''alice@example.com'' 1700000000000 rnd0))
     (toHex (randomBytes 32 rnd0)) ''Newpass1!'' 1700000000001 1700000000002 1700000000003
     = (fail 400 ''Token is invalid or has expired'',
        [alice\<lparr>passwordResetToken := Some (CHR ''#'' # toHex (randomBytes 32 rnd0))\<rparr>]) \<and>
   passwordResetExpire
     (snd (createPasswordResetToken (env0\<lparr>PASSWORD_RESET_EXPIRE := None\<rparr>) 1700000500000 rnd0
             alice_reset))
     = Some 1700000600000"
  by (simp add: createPasswordResetToken_def parseInt_env_def assignDate_def forgotPassword_def
      resetPassword_def findOne_def save_def updateById_def fail_def env0_def alice_reset_def
      alice_def Let_def)

section \<open>Password verification\<close>

text \<open>
  C8 (as amended). \<^verbatim>\<open>comparePassword\<close> returns what \<^verbatim>\<open>bcrypt.compare\<close> returns for the
  candidate and the stored digest, and has no handler of its own: it returns false for a
  malformed digest where the library does, and where the library rejects, the method rejects,
  and a login that has reached the password check answers 500 "Something went wrong during
  login" and writes nothing.
\<close>

theorem comparePassword_follows_library:
  "comparePassword e u pw = bcrypt_compare e pw (password u) \<and>
   (findOne (\<lambda>d. email d = em \<and> isActive d) users = Some u \<and> \<not> isLocked t_check u
      \<and> bcrypt_compare e pw (password u) = None \<longrightarrow>
    login e users em pw t_check t_act t_sign =
      (fail 500 ''Something went wrong during login'', users))"
  by (simp add: comparePassword_def login_def getAuthenticated_def)

theorem comparePassword_follows_library_witness:
  "comparePassword env_reject (corrupt\<lparr>password := ''short''\<rparr>) ''Abcdef1!'' = Some False \<and>
   login env_reject [corrupt] ''alice@example.com'' ''Abcdef1!'' 0 300 301 =
     (fail 500 ''Something went wrong during login'', [corrupt])"
proof -
  have f: "findOne (\<lambda>d. email d = ''alice@example.com'' \<and> isActive d) [corrupt] = Some corrupt"
    by (simp add: findOne_def corrupt_def alice_def)
  have l: "\<not> isLocked 0 corrupt" by (simp add: isLocked_def corrupt_def alice_def)
  have r: "bcrypt_compare env_reject ''Abcdef1!'' (password corrupt) = None"
    by (simp add: env_reject_def corrupt_def take_replicate numeral_2_eq_2)
  have s: "bcrypt_compare env_reject ''Abcdef1!'' (password (corrupt\<lparr>password := ''short''\<rparr>))
           = Some False"
    by (simp add: env_reject_def)
  from comparePassword_follows_library[of env_reject "corrupt\<lparr>password := ''short''\<rparr>" "''Abcdef1!''"] s
  have 1: "comparePassword env_reject (corrupt\<lparr>password := ''short''\<rparr>) ''Abcdef1!'' = Some False"
    by simp
  from comparePassword_follows_library[of env_reject corrupt "''Abcdef1!''"
      "''alice@example.com''" "[corrupt]" 0 300 301] f l r
  have 2: "login env_reject [corrupt] ''alice@example.com'' ''Abcdef1!'' 0 300 301 =
     (fail 500 ''Something went wrong during login'', [corrupt])"
    by blast
  from 1 2 show ?thesis by simp
qed

text \<open>
  C8 as stated fails: the stored digest of \<open>corrupt\<close> has 60 characters and does not begin
  with \<open>$2\<close>; the library rejects it, and so does \<^verbatim>\<open>comparePassword\<close>, which does not
  return false.
\<close>

theorem comparePassword_rejects_counterexample:
  "length (password corrupt) = 60 \<and>
   comparePassword env_reject corrupt ''Abcdef1!'' = None \<and>
   comparePassword env_reject corrupt ''Abcdef1!'' \<noteq> Some False"
  by (simp add: comparePassword_def env_reject_def corrupt_def take_replicate numeral_2_eq_2)

section \<open>The lockout invariant is kept by every handler\<close>

lemma lockout_inv_iff: "lockout_inv u \<longleftrightarrow> lockUntil u = None \<or> 5 \<le> loginAttempts u"
  by (simp add: lockout_inv_def split: option.splits)

lemma lockout_inv_fresh: "lockUntil u = None \<Longrightarrow> lockout_inv u"
  by (simp add: lockout_inv_iff)

lemma lockout_inv_save:
  assumes "\<forall>d\<in>set users. lockout_inv d" and "lockout_inv u'"
  shows "\<forall>d\<in>set (save u' users). lockout_inv d"
  using assms by (auto simp: save_def set_updateById)

lemma lockout_inv_login:
  assumes "\<forall>d\<in>set users. lockout_inv d"
  shows "\<forall>d\<in>set (snd (login e users em pw t_check t_act t_sign)). lockout_inv d"
proof (cases "getAuthenticated e users em pw t_check t_act")
  case None
  with assms show ?thesis by (simp add: login_def)
next
  case (Some p)
  obtain r users' where p: "p = (r, users')" by (cases p)
  from lockout_inv_getAuthenticated[OF assms Some[unfolded p]]
  have "\<forall>d\<in>set users'. lockout_inv d" .
  with Some p show ?thesis by (cases r) (simp_all add: login_def)
qed

lemma lockout_inv_forgotPassword:
  assumes "\<forall>d\<in>set users. lockout_inv d"
  shows "\<forall>d\<in>set (snd (forgotPassword e users em now rnd)). lockout_inv d"
proof (cases "findOne (\<lambda>d. email d = em \<and> isActive d) users")
  case None
  with assms show ?thesis by (simp add: forgotPassword_def)
next
  case (Some u)
  from findOne_Some_set[OF Some] assms have "lockout_inv u" by blast
  then have "lockout_inv (snd (createPasswordResetToken e now rnd u))"
    by (simp add: createPasswordResetToken_def Let_def lockout_inv_iff)
  from lockout_inv_save[OF assms this] Some show ?thesis
    by (simp add: forgotPassword_def split: prod.splits)
qed

lemma lockout_inv_resetPassword:
  assumes "\<forall>d\<in>set users. lockout_inv d"
  shows "\<forall>d\<in>set (snd (resetPassword e users T pw tq ts tg)). lockout_inv d"
proof (cases "findOne (\<lambda>d. passwordResetToken d = Some (sha256 e T)
                     \<and> gt_date (passwordResetExpire d) tq \<and> isActive d) users")
  case None
  with assms show ?thesis by (simp add: resetPassword_no_match)
next
  case (Some u)
  from findOne_Some_set[OF Some] assms have "lockout_inv u" by blast
  then have "lockout_inv (pre_save e ts True False
      (u\<lparr>password := pw, passwordResetToken := None, passwordResetExpire := None\<rparr>))"
    by (simp add: pre_save_def Let_def lockout_inv_iff)
  from lockout_inv_save[OF assms this] Some show ?thesis
    by (simp add: resetPassword_def Let_def)
qed

lemma lockout_inv_verifyEmail:
  assumes "\<forall>d\<in>set users. lockout_inv d"
  shows "\<forall>d\<in>set (snd (verifyEmail e users T tq)). lockout_inv d"
proof (cases "findOne (\<lambda>d. emailVerificationToken d = Some (sha256 e T)
                     \<and> gt_date (emailVerificationExpire d) tq \<and> isActive d) users")
  case None
  with assms show ?thesis by (simp add: verifyEmail_no_match)
next
  case (Some u)
  from findOne_Some_set[OF Some] assms have "lockout_inv u" by blast
  then have "lockout_inv (u\<lparr>isEmailVerified := True, emailVerificationToken := None,
                              emailVerificationExpire := None\<rparr>)"
    by (simp add: lockout_inv_iff)
  from lockout_inv_save[OF assms this] Some show ?thesis
    by (simp add: verifyEmail_def Let_def)
qed

lemma lockout_inv_updatePassword:
  assumes "\<forall>d\<in>set users. lockout_inv d"
  shows "\<forall>d\<in>set (snd (updatePassword e users reqUser cur new ts tg)). lockout_inv d"
proof (cases "findById (uid reqUser) users")
  case None
  with assms show ?thesis by (simp add: updatePassword_def)
next
  case (Some u)
  from findOne_Some_set[OF Some[unfolded findById_def]] assms have "lockout_inv u" by blast
  then have "lockout_inv (pre_save e ts m False (u\<lparr>password := new\<rparr>))" for m
    by (simp add: pre_save_def Let_def lockout_inv_iff)
  from lockout_inv_save[OF assms this]
  have s: "\<forall>d\<in>set (save (pre_save e ts (new \<noteq> password u) False (u\<lparr>password := new\<rparr>)) users).
             lockout_inv d" .
  show ?thesis
  proof (cases "comparePassword e u cur")
    case None
    with Some assms show ?thesis by (simp add: updatePassword_def)
  next
    case (Some b)
    with \<open>findById (uid reqUser) users = Some u\<close> assms s show ?thesis
      by (cases b) (simp_all add: updatePassword_def Let_def)
  qed
qed

lemma lockout_inv_resendVerification:
  assumes "\<forall>d\<in>set users. lockout_inv d" and "lockout_inv reqUser"
  shows "\<forall>d\<in>set (snd (resendVerification e users reqUser now rnd)). lockout_inv d"
proof (cases "isEmailVerified reqUser")
  case True
  with assms show ?thesis by (simp add: resendVerification_def)
next
  case False
  from assms(2) have "lockout_inv (snd (createEmailVerificationToken e now rnd reqUser))"
    by (simp add: createEmailVerificationToken_def Let_def lockout_inv_iff)
  from lockout_inv_save[OF assms(1) this] False show ?thesis
    by (simp add: resendVerification_def split: prod.splits)
qed

end
